theory Spec2Isabelle
  imports Main
begin

section \<open>The stagger pool graph of the Brewmaster analyzer\<close>

text \<open>
  The development embeds the class \<open>StaggerPoolGraph\<close> of
  \<^verbatim>\<open>src/parser/monk/brewmaster/modules/features/StaggerPoolGraph.js\<close>: its six
  fields, its five event handlers and the series computed by \<open>plot\<close>. The React
  component \<open>StaggerGraph\<close> that draws the series is not modelled.

  The numeric fields of the events hold integral numbers and have type \<open>int\<close>;
  fractional numbers are outside the model. The handlers and \<open>plot\<close> copy and
  compare these numbers, which is exact; the one sum \<open>plot\<close> computes is the sum
  of JavaScript numbers, which rounds (\<open>js_add\<close> below). A field that may be
  \<^verbatim>\<open>undefined\<close> has type \<open>int option\<close>, with \<open>None\<close> for \<^verbatim>\<open>undefined\<close>. The fields
  of the class keep their names without the leading underscore.
\<close>

subsection \<open>Events\<close>

text \<open>
  Modelled from the spec: the shapes of the events. The modules that produce them
  (\<open>StaggerFabricator\<close> and the log parser) are not part of the sources, so the fields
  are the ones section 3 of the specification lists: every event has a \<open>timestamp\<close>; a
  damage or heal event has optional \<open>hitPoints\<close> and \<open>maxHitPoints\<close>; a stagger
  removal has \<open>newPooledDamage\<close>, \<open>amount\<close> and a \<open>trigger\<close> whose \<open>ability\<close> is
  optional; a stagger gain needs no field beyond the timestamp, so its
  \<open>newPooledDamage\<close> is optional.
\<close>

record ability =
  guid :: int

record trigger =
  ability :: "ability option"

record event =
  timestamp :: int

record hp_event = event +
  hitPoints :: "int option"
  maxHitPoints :: "int option"

record addstagger_event = event +
  newPooledDamage :: "int option"

record removestagger_event = event +
  newPooledDamage :: int
  amount :: int
  trigger :: trigger

subsection \<open>The fields of the analyzer\<close>

text \<open>
  \<open>on_addstagger\<close> and \<open>on_removestagger\<close> push \<^verbatim>\<open>{...event, hitPoints, maxHitPoints}\<close>:
  a copy of the whole event with the two health fields set. The copy is kept as
  \<open>source\<close>; \<open>stagger_timestamp\<close> and \<open>stagger_newPooledDamage\<close> read the two
  fields of the copy that \<open>plot\<close> uses. A purify record is
  \<^verbatim>\<open>{...event, previousTimestamp}\<close> in the same way.
\<close>

datatype stagger_source =
    AddStagger addstagger_event
  | RemoveStagger removestagger_event

record stagger_record =
  source :: stagger_source
  hitPoints :: int
  maxHitPoints :: int

record purify_record =
  removal :: removestagger_event
  previousTimestamp :: int

fun stagger_timestamp :: "stagger_record \<Rightarrow> int" where
  "stagger_timestamp r =
     (case source r of AddStagger e \<Rightarrow> timestamp e | RemoveStagger e \<Rightarrow> timestamp e)"

fun stagger_newPooledDamage :: "stagger_record \<Rightarrow> int option" where
  "stagger_newPooledDamage r =
     (case source r of
        AddStagger e \<Rightarrow> addstagger_event.newPooledDamage e
      | RemoveStagger e \<Rightarrow> Some (removestagger_event.newPooledDamage e))"

record StaggerPoolGraph =
  hpEvents :: "hp_event list"
  staggerEvents :: "stagger_record list"
  deathEvents :: "event list"
  purifyEvents :: "purify_record list"
  lastHp :: int
  lastMaxHp :: int

text \<open>The field initialisers of the class (lines 147 to 152).\<close>

definition initial :: StaggerPoolGraph where
  "initial = \<lparr>hpEvents = [], staggerEvents = [], deathEvents = [], purifyEvents = [],
              lastHp = 0, lastMaxHp = 0\<rparr>"

subsection \<open>The handlers\<close>

text \<open>
  A handler takes the object and the event and returns the object as the handler
  leaves it. Reading a property of \<^verbatim>\<open>undefined\<close> throws a \<open>TypeError\<close>; a handler
  that can throw returns \<open>Inl (error, object at the throw)\<close>, and \<open>Inr\<close> of the
  object when it returns normally.
\<close>

datatype error = TypeError

type_synonym outcome = "(error \<times> StaggerPoolGraph) + StaggerPoolGraph"

definition on_addstagger :: "StaggerPoolGraph \<Rightarrow> addstagger_event \<Rightarrow> StaggerPoolGraph" where
  "on_addstagger this event =
     this\<lparr>staggerEvents := staggerEvents this @
       [\<lparr>source = AddStagger event, hitPoints = lastHp this, maxHitPoints = lastMaxHp this\<rparr>]\<rparr>"

text \<open>
  The condition of line 159,
  \<^verbatim>\<open>event.trigger.ability && event.trigger.ability.guid === SPELLS.PURIFYING_BREW.id\<close>.
  The table \<open>SPELLS\<close> is not part of the sources, so the identifier of Purifying Brew
  is the parameter \<open>pid\<close>.
\<close>

definition purifying :: "int \<Rightarrow> removestagger_event \<Rightarrow> bool" where
  "purifying pid event =
     (case ability (trigger event) of None \<Rightarrow> False | Some a \<Rightarrow> guid a = pid)"

text \<open>
  Line 163 reads \<^verbatim>\<open>this._staggerEvents[this._staggerEvents.length - 1].timestamp\<close>
  while it builds the argument of \<open>push\<close>. On an empty array the element is
  \<^verbatim>\<open>undefined\<close> and reading its \<open>timestamp\<close> throws, before anything is pushed.
\<close>

definition on_removestagger :: "int \<Rightarrow> StaggerPoolGraph \<Rightarrow> removestagger_event \<Rightarrow> outcome" where
  "on_removestagger pid this event =
     (case (if purifying pid event
            then (case staggerEvents this of
                    [] \<Rightarrow> Inl (TypeError, this)
                  | _ # _ \<Rightarrow> Inr (this\<lparr>purifyEvents := purifyEvents this @
                      [\<lparr>removal = event,
                        previousTimestamp = stagger_timestamp (last (staggerEvents this))\<rparr>]\<rparr>))
            else Inr this) of
        Inl e \<Rightarrow> Inl e
      | Inr this' \<Rightarrow> Inr (this'\<lparr>staggerEvents := staggerEvents this' @
          [\<lparr>source = RemoveStagger event, hitPoints = lastHp this',
            maxHitPoints = lastMaxHp this'\<rparr>]\<rparr>))"

definition on_toPlayer_death :: "StaggerPoolGraph \<Rightarrow> event \<Rightarrow> StaggerPoolGraph" where
  "on_toPlayer_death this event = this\<lparr>deathEvents := deathEvents this @ [event]\<rparr>"

text \<open>
  \<^verbatim>\<open>v ? v : d\<close> on a numeric field: \<^verbatim>\<open>undefined\<close> and \<open>0\<close> are falsy.
\<close>

fun truthy_or :: "int option \<Rightarrow> int \<Rightarrow> int" where
  "truthy_or None d = d"
| "truthy_or (Some n) d = (if n \<noteq> 0 then n else d)"

definition on_toPlayer_damage :: "StaggerPoolGraph \<Rightarrow> hp_event \<Rightarrow> StaggerPoolGraph" where
  "on_toPlayer_damage this event =
     (let this1 = this\<lparr>hpEvents := hpEvents this @ [event]\<rparr>;
          this2 = this1\<lparr>lastHp := truthy_or (hp_event.hitPoints event) (lastHp this1)\<rparr>
      in this2\<lparr>lastMaxHp := truthy_or (hp_event.maxHitPoints event) (lastMaxHp this2)\<rparr>)"

definition on_toPlayer_heal :: "StaggerPoolGraph \<Rightarrow> hp_event \<Rightarrow> StaggerPoolGraph" where
  "on_toPlayer_heal this event =
     (let this1 = this\<lparr>hpEvents := hpEvents this @ [event]\<rparr>;
          this2 = this1\<lparr>lastHp := truthy_or (hp_event.hitPoints event) (lastHp this1)\<rparr>
      in this2\<lparr>lastMaxHp := truthy_or (hp_event.maxHitPoints event) (lastMaxHp this2)\<rparr>)"

subsection \<open>The sum of two numbers\<close>

text \<open>
  A JavaScript number is a double: a sign, 53 significant bits and an exponent. The
  \<open>+\<close> of line 195 yields the double nearest to the exact sum, the one with an even
  last bit when two are equally near, and an infinity when that rounding reaches
  \<open>2 ^ 1024\<close>. For integral operands the exact sum is integral, so the result is
  an integer or an infinity. The operands are fields of an event, so numbers
  themselves: the definitions are meant for integers that a double holds.

  \<open>drop_count m\<close> is the number of low bits that do not fit: the least \<open>sh\<close> with
  \<open>m div 2 ^ sh < 2 ^ 53\<close>. \<open>round_to_double\<close> rounds an integer to 53 significant
  bits with no bound on the exponent, and \<open>js_add\<close> is the sum.
\<close>

datatype number = Num int | PlusInfinity | MinusInfinity

function drop_count :: "int \<Rightarrow> nat" where
  "drop_count m = (if m < 2 ^ 53 then 0 else Suc (drop_count (m div 2)))"
  by pat_completeness auto
termination
  by (relation "measure nat") auto

definition round_to_double :: "int \<Rightarrow> int" where
  "round_to_double n =
     (let m = \<bar>n\<bar>; sh = drop_count m in
      if sh = 0 then n
      else
        let q = m div 2 ^ sh; r = m mod 2 ^ sh; half = 2 ^ (sh - 1);
            q' = (if half < r \<or> (r = half \<and> odd q) then q + 1 else q)
        in sgn n * (q' * 2 ^ sh))"

definition js_add :: "int \<Rightarrow> int \<Rightarrow> number" where
  "js_add a b =
     (let r = round_to_double (a + b) in
      if 2 ^ 1024 \<le> r then PlusInfinity
      else if r \<le> - (2 ^ 1024) then MinusInfinity
      else Num r)"

subsection \<open>The series\<close>

text \<open>
  The points handed to the chart: \<^verbatim>\<open>{x}\<close> for a death, \<^verbatim>\<open>{x, y}\<close> for health and
  maximal health, \<^verbatim>\<open>{x, y, hp, maxHp}\<close> for the pool and \<^verbatim>\<open>{x, y, amount}\<close> for a
  purify. The \<open>y\<close> of a pool or health point is the field of the record as it is,
  so it is optional; the \<open>y\<close> of a purify marker is a sum, so it is a \<open>number\<close>.
\<close>

record point =
  x :: int

record 'y xy_point = point +
  y :: 'y

record stagger_point = "int option xy_point" +
  hp :: int
  maxHp :: int

record purify_point = "number xy_point" +
  amount :: int

record graph_props =
  stagger :: "stagger_point list"
  hp :: "int option xy_point list"
  maxHp :: "int option xy_point list"
  purifies :: "purify_point list"
  deaths :: "point list"

text \<open>
  \<open>plot\<close> (lines 185 to 213) is a method of the object as the handlers are: it
  returns the properties of the chart and the object as it leaves it. \<open>map\<close> and
  \<open>filter\<close> of a JavaScript array build a new array, and \<open>plot\<close> assigns no field.
\<close>

definition plot :: "StaggerPoolGraph \<Rightarrow> graph_props \<times> StaggerPoolGraph" where
  "plot this =
     (let stagger = map (\<lambda>r. \<lparr>x = stagger_timestamp r, y = stagger_newPooledDamage r,
                               stagger_point.hp = stagger_record.hitPoints r,
                               maxHp = stagger_record.maxHitPoints r\<rparr>) (staggerEvents this);
          purifies = map (\<lambda>p. \<lparr>x = previousTimestamp p,
                                y = js_add (removestagger_event.newPooledDamage (removal p))
                                           (removestagger_event.amount (removal p)),
                                amount = removestagger_event.amount (removal p)\<rparr>)
                         (purifyEvents this);
          hp = map (\<lambda>e. \<lparr>x = timestamp e, y = hp_event.hitPoints e\<rparr>)
                   (filter (\<lambda>e. hp_event.hitPoints e \<noteq> None) (hpEvents this));
          maxHp = map (\<lambda>e. \<lparr>x = timestamp e, y = hp_event.maxHitPoints e\<rparr>)
                      (filter (\<lambda>e. hp_event.maxHitPoints e \<noteq> None) (hpEvents this));
          deaths = map (\<lambda>e. \<lparr>x = timestamp e\<rparr>) (deathEvents this)
      in (\<lparr>stagger = stagger, hp = hp, maxHp = maxHp, purifies = purifies, deaths = deaths\<rparr>,
          this))"

definition series :: "StaggerPoolGraph \<Rightarrow> graph_props" where
  "series this = fst (plot this)"

subsection \<open>Feeding a stream\<close>

text \<open>
  Modelled from the spec: the dispatch of events to handlers. The base class
  \<open>Analyzer\<close> is not part of the sources; by sections 4.1 and 6 of the specification
  the host calls the handler of the event's kind once per event, in stream order, and
  an event of any other kind changes nothing. A throw of a handler ends the feed.
\<close>

datatype stream_event =
    StaggerAdd addstagger_event
  | StaggerRemove removestagger_event
  | Damage hp_event
  | Heal hp_event
  | Death event
  | Other event

fun ingest :: "int \<Rightarrow> StaggerPoolGraph \<Rightarrow> stream_event \<Rightarrow> outcome" where
  "ingest pid this (StaggerAdd e) = Inr (on_addstagger this e)"
| "ingest pid this (StaggerRemove e) = on_removestagger pid this e"
| "ingest pid this (Damage e) = Inr (on_toPlayer_damage this e)"
| "ingest pid this (Heal e) = Inr (on_toPlayer_heal this e)"
| "ingest pid this (Death e) = Inr (on_toPlayer_death this e)"
| "ingest pid this (Other e) = Inr this"

fun ingest_all :: "int \<Rightarrow> StaggerPoolGraph \<Rightarrow> stream_event list \<Rightarrow> outcome" where
  "ingest_all pid this [] = Inr this"
| "ingest_all pid this (e # es) =
     (case ingest pid this e of Inl err \<Rightarrow> Inl err | Inr this' \<Rightarrow> ingest_all pid this' es)"

text \<open>The object after a feed, whether the feed ended normally or by a throw.\<close>

fun object_of :: "outcome \<Rightarrow> StaggerPoolGraph" where
  "object_of (Inl (err, this)) = this"
| "object_of (Inr this) = this"

subsection \<open>Notions used to state the properties\<close>

text \<open>
  The stagger events of a stream event, as the copies the handlers keep: one for a
  gain or a removal, none for any other event.
\<close>

fun stagger_sources :: "stream_event \<Rightarrow> stagger_source list" where
  "stagger_sources (StaggerAdd e) = [AddStagger e]"
| "stagger_sources (StaggerRemove e) = [RemoveStagger e]"
| "stagger_sources _ = []"

fun is_stagger :: "stream_event \<Rightarrow> bool" where
  "is_stagger (StaggerAdd e) = True"
| "is_stagger (StaggerRemove e) = True"
| "is_stagger _ = False"

text \<open>
  Every purify record carries the timestamp of some record of \<open>staggerEvents\<close>.
\<close>

definition purify_refs_ok :: "StaggerPoolGraph \<Rightarrow> bool" where
  "purify_refs_ok this =
     (\<forall>p \<in> set (purifyEvents this). \<exists>r \<in> set (staggerEvents this).
        stagger_timestamp r = previousTimestamp p)"

subsection \<open>Example streams\<close>

text \<open>
  The first scenario of section 8 of the specification: a gain at 100, damage at 150
  with 80 of 100 hit points, a purification at 200 that leaves 5 after removing 15,
  and a death at 250. The identifier 119582 stands for Purifying Brew.
\<close>

definition purification :: removestagger_event where
  "purification =
     \<lparr>timestamp = 200, newPooledDamage = 5, amount = 15,
      trigger = \<lparr>ability = Some \<lparr>guid = 119582\<rparr>\<rparr>\<rparr>"

definition scenario :: "stream_event list" where
  "scenario =
     [StaggerAdd \<lparr>timestamp = 100, addstagger_event.newPooledDamage = None\<rparr>,
      Damage \<lparr>timestamp = 150, hp_event.hitPoints = Some 80, maxHitPoints = Some 100\<rparr>,
      StaggerRemove purification,
      Death \<lparr>timestamp = 250\<rparr>]"

text \<open>The object at the peak, after the first two events of the scenario.\<close>

definition peak :: StaggerPoolGraph where
  "peak =
     on_toPlayer_damage
       (on_addstagger initial \<lparr>timestamp = 100, addstagger_event.newPooledDamage = None\<rparr>)
       \<lparr>timestamp = 150, hp_event.hitPoints = Some 80, maxHitPoints = Some 100\<rparr>"

text \<open>A removal whose trigger has no ability: the tick of the stagger debuff.\<close>

definition tick :: removestagger_event where
  "tick = \<lparr>timestamp = 300, newPooledDamage = 4, amount = 1, trigger = \<lparr>ability = None\<rparr>\<rparr>"

text \<open>
  A stream of health events: one with both fields, a heal without \<open>hitPoints\<close>, a
  hit that leaves 0 hit points and has no \<open>maxHitPoints\<close>, then a gain of stagger.
\<close>

definition full_hit :: hp_event where
  "full_hit = \<lparr>timestamp = 10, hp_event.hitPoints = Some 80, maxHitPoints = Some 100\<rparr>"

definition blind_heal :: hp_event where
  "blind_heal = \<lparr>timestamp = 20, hp_event.hitPoints = None, maxHitPoints = Some 120\<rparr>"

definition killing_hit :: hp_event where
  "killing_hit = \<lparr>timestamp = 30, hp_event.hitPoints = Some 0, maxHitPoints = None\<rparr>"

definition health_stream :: "stream_event list" where
  "health_stream =
     [Damage full_hit, Heal blind_heal, Damage killing_hit,
      StaggerAdd \<lparr>timestamp = 40, addstagger_event.newPooledDamage = None\<rparr>]"

text \<open>A stream without stagger events.\<close>

definition quiet_stream :: "stream_event list" where
  "quiet_stream =
     [Damage full_hit, Heal blind_heal, Death \<lparr>timestamp = 250\<rparr>, Other \<lparr>timestamp = 260\<rparr>]"

section \<open>Properties\<close>

subsection \<open>Facts about the handlers and the series\<close>

lemma purifying_iff:
  "purifying pid ev \<longleftrightarrow> (\<exists>a. ability (trigger ev) = Some a \<and> guid a = pid)"
  by (simp add: purifying_def split: option.splits)

lemma on_removestagger_plain:
  "\<not> purifying pid ev \<Longrightarrow>
   on_removestagger pid s ev =
     Inr (s\<lparr>staggerEvents := staggerEvents s @
       [\<lparr>source = RemoveStagger ev, hitPoints = lastHp s, maxHitPoints = lastMaxHp s\<rparr>]\<rparr>)"
  by (simp add: on_removestagger_def)

lemma on_removestagger_throw:
  "purifying pid ev \<Longrightarrow> staggerEvents s = [] \<Longrightarrow>
   on_removestagger pid s ev = Inl (TypeError, s)"
  by (simp add: on_removestagger_def)

lemma on_removestagger_purify:
  "purifying pid ev \<Longrightarrow> staggerEvents s \<noteq> [] \<Longrightarrow>
   on_removestagger pid s ev =
     Inr (s\<lparr>purifyEvents := purifyEvents s @
             [\<lparr>removal = ev, previousTimestamp = stagger_timestamp (last (staggerEvents s))\<rparr>],
           staggerEvents := staggerEvents s @
             [\<lparr>source = RemoveStagger ev, hitPoints = lastHp s, maxHitPoints = lastMaxHp s\<rparr>]\<rparr>)"
  by (cases "staggerEvents s") (simp_all add: on_removestagger_def)

lemma on_removestagger_cases:
  obtains (throw) "purifying pid ev" "staggerEvents s = []"
            "on_removestagger pid s ev = Inl (TypeError, s)"
  | (purify) "purifying pid ev" "staggerEvents s \<noteq> []"
            "on_removestagger pid s ev =
               Inr (s\<lparr>purifyEvents := purifyEvents s @
                 [\<lparr>removal = ev, previousTimestamp = stagger_timestamp (last (staggerEvents s))\<rparr>],
               staggerEvents := staggerEvents s @
                 [\<lparr>source = RemoveStagger ev, hitPoints = lastHp s, maxHitPoints = lastMaxHp s\<rparr>]\<rparr>)"
  | (plain) "\<not> purifying pid ev"
            "on_removestagger pid s ev =
               Inr (s\<lparr>staggerEvents := staggerEvents s @
                 [\<lparr>source = RemoveStagger ev, hitPoints = lastHp s, maxHitPoints = lastMaxHp s\<rparr>]\<rparr>)"
  using on_removestagger_plain on_removestagger_throw on_removestagger_purify by blast

lemma on_removestagger_Inl:
  "on_removestagger pid s ev = Inl (err, s') \<Longrightarrow> s' = s"
  by (cases pid ev s rule: on_removestagger_cases) simp_all

lemma ingest_Inl: "ingest pid s e = Inl (err, s') \<Longrightarrow> s' = s"
  by (cases e) (simp_all add: on_removestagger_Inl)

lemma round_to_double_exact: "\<bar>n\<bar> \<le> 2 ^ 53 \<Longrightarrow> round_to_double n = n"
proof (cases "\<bar>n\<bar> < 2 ^ 53")
  case True
  then show ?thesis by (simp add: round_to_double_def)
next
  case False
  assume "\<bar>n\<bar> \<le> 2 ^ 53"
  with False have m: "\<bar>n\<bar> = 2 ^ 53" by simp
  have "sgn n * \<bar>n\<bar> = n" by (rule mult_sgn_abs)
  with m have "sgn n * 2 ^ 53 = n" by simp
  with m show ?thesis
    by (simp add: round_to_double_def Let_def)
qed

lemma js_add_exact:
  assumes "\<bar>a + b\<bar> \<le> 2 ^ 53"
  shows "js_add a b = Num (a + b)"
proof -
  have "(2::int) ^ 53 < 2 ^ 1024" by simp
  with assms have "a + b < 2 ^ 1024" "- (2 ^ 1024) < a + b" by linarith+
  with round_to_double_exact [OF assms] show ?thesis
    by (simp add: js_add_def)
qed

lemma stagger_series:
  "stagger (series s) =
     map (\<lambda>r. \<lparr>x = stagger_timestamp r, y = stagger_newPooledDamage r,
               stagger_point.hp = stagger_record.hitPoints r,
               maxHp = stagger_record.maxHitPoints r\<rparr>) (staggerEvents s)"
  by (simp add: series_def plot_def Let_def)

lemma purifies_series:
  "purifies (series s) =
     map (\<lambda>p. \<lparr>x = previousTimestamp p,
               y = js_add (removestagger_event.newPooledDamage (removal p))
                          (removestagger_event.amount (removal p)),
               amount = removestagger_event.amount (removal p)\<rparr>) (purifyEvents s)"
  by (simp add: series_def plot_def Let_def)

lemma hp_series:
  "graph_props.hp (series s) =
     map (\<lambda>e. \<lparr>x = timestamp e, y = hp_event.hitPoints e\<rparr>)
       (filter (\<lambda>e. hp_event.hitPoints e \<noteq> None) (hpEvents s))"
  by (simp add: series_def plot_def Let_def)

lemma maxHp_series:
  "graph_props.maxHp (series s) =
     map (\<lambda>e. \<lparr>x = timestamp e, y = hp_event.maxHitPoints e\<rparr>)
       (filter (\<lambda>e. hp_event.maxHitPoints e \<noteq> None) (hpEvents s))"
  by (simp add: series_def plot_def Let_def)

text \<open>The example objects, evaluated.\<close>

lemma peak_eq:
  "peak =
     \<lparr>hpEvents = [\<lparr>timestamp = 150, hp_event.hitPoints = Some 80, maxHitPoints = Some 100\<rparr>],
      staggerEvents =
        [\<lparr>source = AddStagger \<lparr>timestamp = 100, addstagger_event.newPooledDamage = None\<rparr>,
          hitPoints = 0, maxHitPoints = 0\<rparr>],
      deathEvents = [], purifyEvents = [], lastHp = 80, lastMaxHp = 100\<rparr>"
  by (simp add: peak_def initial_def on_addstagger_def on_toPlayer_damage_def Let_def)

lemma purifying_purification: "purifying 119582 purification"
  by (simp add: purifying_def purification_def)

lemma not_purifying_tick: "\<not> purifying 119582 tick"
  by (simp add: purifying_def tick_def)

lemma scenario_prefix: "ingest_all 119582 initial (take 2 scenario) = Inr peak"
  by (simp add: scenario_def peak_def)

lemma scenario_eq:
  "ingest_all 119582 initial scenario =
     Inr \<lparr>hpEvents =
            [\<lparr>timestamp = 150, hp_event.hitPoints = Some 80, maxHitPoints = Some 100\<rparr>],
          staggerEvents =
            [\<lparr>source = AddStagger \<lparr>timestamp = 100, addstagger_event.newPooledDamage = None\<rparr>,
              hitPoints = 0, maxHitPoints = 0\<rparr>,
             \<lparr>source = RemoveStagger purification, hitPoints = 80, maxHitPoints = 100\<rparr>],
          deathEvents = [\<lparr>timestamp = 250\<rparr>],
          purifyEvents = [\<lparr>removal = purification, previousTimestamp = 100\<rparr>],
          lastHp = 80, lastMaxHp = 100\<rparr>"
proof -
  have "ingest_all 119582 initial scenario
      = ingest_all 119582 peak [StaggerRemove purification, Death \<lparr>timestamp = 250\<rparr>]"
    by (simp add: scenario_def peak_def)
  also have "\<dots> = Inr (on_toPlayer_death
      (peak\<lparr>purifyEvents := purifyEvents peak @
              [\<lparr>removal = purification,
                previousTimestamp = stagger_timestamp (last (staggerEvents peak))\<rparr>],
            staggerEvents := staggerEvents peak @
              [\<lparr>source = RemoveStagger purification, hitPoints = lastHp peak,
                maxHitPoints = lastMaxHp peak\<rparr>]\<rparr>) \<lparr>timestamp = 250\<rparr>)"
    by (simp add: on_removestagger_purify [OF purifying_purification] peak_eq)
  also have "\<dots> = Inr \<lparr>hpEvents =
            [\<lparr>timestamp = 150, hp_event.hitPoints = Some 80, maxHitPoints = Some 100\<rparr>],
          staggerEvents =
            [\<lparr>source = AddStagger \<lparr>timestamp = 100, addstagger_event.newPooledDamage = None\<rparr>,
              hitPoints = 0, maxHitPoints = 0\<rparr>,
             \<lparr>source = RemoveStagger purification, hitPoints = 80, maxHitPoints = 100\<rparr>],
          deathEvents = [\<lparr>timestamp = 250\<rparr>],
          purifyEvents = [\<lparr>removal = purification, previousTimestamp = 100\<rparr>],
          lastHp = 80, lastMaxHp = 100\<rparr>"
    by (simp add: peak_eq on_toPlayer_death_def)
  finally show ?thesis .
qed

lemma health_stream_eq:
  "ingest_all 119582 initial health_stream =
     Inr \<lparr>hpEvents = [full_hit, blind_heal, killing_hit],
          staggerEvents =
            [\<lparr>source = AddStagger \<lparr>timestamp = 40, addstagger_event.newPooledDamage = None\<rparr>,
              hitPoints = 80, maxHitPoints = 120\<rparr>],
          deathEvents = [], purifyEvents = [], lastHp = 80, lastMaxHp = 120\<rparr>"
  by (simp add: health_stream_def initial_def on_toPlayer_damage_def on_toPlayer_heal_def
      on_addstagger_def Let_def full_hit_def blind_heal_def killing_hit_def)

subsection \<open>Purification is recorded at the previous timestamp\<close>

text \<open>
  Claim C1. When \<open>on_removestagger\<close> receives a removal whose trigger carries the
  ability of Purifying Brew and \<open>staggerEvents\<close> is not empty, it returns normally;
  exactly one purify record is appended to \<open>purifyEvents\<close>, and its
  \<open>previousTimestamp\<close> is the timestamp of the last element that \<open>staggerEvents\<close>
  had before the removal was appended to it. The marker that \<open>plot\<close> adds for the
  record has this timestamp as \<open>x\<close>, while the record appended to \<open>staggerEvents\<close>
  carries the timestamp of the removal.
\<close>

theorem purify_recorded_at_previous_timestamp:
  assumes "ability (trigger ev) = Some a" and "guid a = pid" and "staggerEvents s \<noteq> []"
  shows "\<exists>s'. on_removestagger pid s ev = Inr s'
     \<and> purifyEvents s' = purifyEvents s @
          [\<lparr>removal = ev, previousTimestamp = stagger_timestamp (last (staggerEvents s))\<rparr>]
     \<and> staggerEvents s' = staggerEvents s @
          [\<lparr>source = RemoveStagger ev, hitPoints = lastHp s, maxHitPoints = lastMaxHp s\<rparr>]
     \<and> stagger_timestamp (last (staggerEvents s')) = timestamp ev
     \<and> purifies (series s') = purifies (series s) @
          [\<lparr>x = stagger_timestamp (last (staggerEvents s)),
            y = js_add (removestagger_event.newPooledDamage ev) (removestagger_event.amount ev),
            amount = removestagger_event.amount ev\<rparr>]"
proof -
  from assms(1,2) have "purifying pid ev"
    by (simp add: purifying_iff)
  from on_removestagger_purify [OF this assms(3)] show ?thesis
    by (simp add: purifies_series)
qed

theorem purify_recorded_at_previous_timestamp_witness:
  "ability (trigger purification) = Some \<lparr>guid = 119582\<rparr>
   \<and> guid \<lparr>guid = 119582\<rparr> = 119582
   \<and> staggerEvents peak \<noteq> []
   \<and> (\<exists>s'. on_removestagger 119582 peak purification = Inr s'
        \<and> purifyEvents s' = [\<lparr>removal = purification, previousTimestamp = 100\<rparr>]
        \<and> stagger_timestamp (last (staggerEvents s')) = 200
        \<and> purifies (series s') = [\<lparr>x = 100, y = Num 20, amount = 15\<rparr>])"
proof -
  have h1: "ability (trigger purification) = Some \<lparr>guid = 119582\<rparr>"
    by (simp add: purification_def)
  have h2: "guid \<lparr>guid = 119582\<rparr> = 119582"
    by simp
  have h3: "staggerEvents peak \<noteq> []"
    by (simp add: peak_eq)
  from purify_recorded_at_previous_timestamp [OF h1 h2 h3] obtain s' where
    s': "on_removestagger 119582 peak purification = Inr s'"
      "purifyEvents s' = purifyEvents peak @
          [\<lparr>removal = purification,
            previousTimestamp = stagger_timestamp (last (staggerEvents peak))\<rparr>]"
      "stagger_timestamp (last (staggerEvents s')) = timestamp purification"
      "purifies (series s') = purifies (series peak) @
          [\<lparr>x = stagger_timestamp (last (staggerEvents peak)),
            y = js_add (removestagger_event.newPooledDamage purification)
                  (removestagger_event.amount purification),
            amount = removestagger_event.amount purification\<rparr>]"
    by blast
  have "purifyEvents s' = [\<lparr>removal = purification, previousTimestamp = 100\<rparr>]"
    using s'(2) by (simp add: peak_eq)
  moreover have "stagger_timestamp (last (staggerEvents s')) = 200"
    using s'(3) by (simp add: purification_def)
  moreover have "purifies (series s') = [\<lparr>x = 100, y = Num 20, amount = 15\<rparr>]"
    using s'(4) by (simp add: purifies_series peak_eq purification_def js_add_exact)
  ultimately show ?thesis
    using h1 h2 h3 s'(1) by blast
qed

subsection \<open>The height of a purify marker\<close>

text \<open>
  Claim C2, as stated, fails: the sum of line 195 rounds. After a gain at 100 and a
  purification at 200 that removes 1 and leaves \<open>2 ^ 53 = 9007199254740992\<close>, the
  marker has \<open>y = 9007199254740992\<close>, which is not \<open>newPooledDamage + amount\<close>; and
  \<open>y\<close> minus the purified amount is \<open>9007199254740991\<close>, not the level recorded
  after the removal.
\<close>

theorem purify_marker_height_rounds:
  "purifies (series (object_of (ingest_all 119582 initial
     [StaggerAdd \<lparr>timestamp = 100, addstagger_event.newPooledDamage = None\<rparr>,
      StaggerRemove \<lparr>timestamp = 200, newPooledDamage = 9007199254740992, amount = 1,
                     trigger = \<lparr>ability = Some \<lparr>guid = 119582\<rparr>\<rparr>\<rparr>])))
   = [\<lparr>x = 100, y = Num 9007199254740992, amount = 1\<rparr>]
   \<and> Num 9007199254740992 \<noteq> Num (9007199254740992 + 1)
   \<and> (9007199254740992 :: int) - 1 \<noteq> 9007199254740992"
  by (simp add: initial_def on_addstagger_def on_removestagger_def purifying_def
      purifies_series js_add_def round_to_double_def Let_def)

text \<open>
  Claim C2, amended. \<open>plot\<close> yields one purify marker per purify record, in order.
  The marker's \<open>y\<close> is the JavaScript sum of the record's \<open>newPooledDamage\<close> and its
  \<open>amount\<close>, its \<open>amount\<close> is the record's, and its \<open>x\<close> is the record's
  \<open>previousTimestamp\<close>. When the exact sum of the two integral fields has a
  magnitude of at most \<open>2 ^ 53\<close>, the JavaScript sum is the exact sum:
  \<open>y = newPooledDamage + amount\<close>, and \<open>y\<close> minus the purified amount is the pool
  recorded after the removal.
\<close>

theorem purify_marker_height:
  "length (purifies (series s)) = length (purifyEvents s)
   \<and> (\<forall>i < length (purifyEvents s).
        y (purifies (series s) ! i)
          = js_add (removestagger_event.newPooledDamage (removal (purifyEvents s ! i)))
              (removestagger_event.amount (removal (purifyEvents s ! i)))
        \<and> purify_point.amount (purifies (series s) ! i)
          = removestagger_event.amount (removal (purifyEvents s ! i))
        \<and> x (purifies (series s) ! i) = previousTimestamp (purifyEvents s ! i)
        \<and> (\<bar>removestagger_event.newPooledDamage (removal (purifyEvents s ! i))
             + removestagger_event.amount (removal (purifyEvents s ! i))\<bar> \<le> 2 ^ 53 \<longrightarrow>
            (\<exists>v. y (purifies (series s) ! i) = Num v
               \<and> v = removestagger_event.newPooledDamage (removal (purifyEvents s ! i))
                     + removestagger_event.amount (removal (purifyEvents s ! i))
               \<and> v - purify_point.amount (purifies (series s) ! i)
                   = removestagger_event.newPooledDamage (removal (purifyEvents s ! i)))))"
  by (simp add: purifies_series js_add_exact)

theorem purify_marker_height_witness:
  "(0::nat) < length (purifyEvents (object_of (ingest_all 119582 initial scenario)))
   \<and> \<bar>removestagger_event.newPooledDamage
        (removal (purifyEvents (object_of (ingest_all 119582 initial scenario)) ! 0))
      + removestagger_event.amount
        (removal (purifyEvents (object_of (ingest_all 119582 initial scenario)) ! 0))\<bar>
      \<le> 2 ^ 53
   \<and> y (purifies (series (object_of (ingest_all 119582 initial scenario))) ! 0) = Num 20
   \<and> (20 :: int) - purify_point.amount
         (purifies (series (object_of (ingest_all 119582 initial scenario))) ! 0) = 5
   \<and> x (purifies (series (object_of (ingest_all 119582 initial scenario))) ! 0) = 100"
proof -
  let ?s = "object_of (ingest_all 119582 initial scenario)"
  let ?r = "removal (purifyEvents ?s ! 0)"
  have len: "(0::nat) < length (purifyEvents ?s)"
    by (simp add: scenario_eq)
  have rec: "purifyEvents ?s ! 0 = \<lparr>removal = purification, previousTimestamp = 100\<rparr>"
    by (simp add: scenario_eq)
  have small: "\<bar>removestagger_event.newPooledDamage ?r + removestagger_event.amount ?r\<bar>
      \<le> 2 ^ 53"
    by (simp add: rec purification_def)
  from purify_marker_height [of ?s] len small
  obtain v where "y (purifies (series ?s) ! 0) = Num v"
    and "v = removestagger_event.newPooledDamage ?r + removestagger_event.amount ?r"
    and "v - purify_point.amount (purifies (series ?s) ! 0)
          = removestagger_event.newPooledDamage ?r"
    by blast
  moreover from purify_marker_height [of ?s] len
  have "x (purifies (series ?s) ! 0) = previousTimestamp (purifyEvents ?s ! 0)"
    by blast
  ultimately have "y (purifies (series ?s) ! 0) = Num 20"
    and "(20 :: int) - purify_point.amount (purifies (series ?s) ! 0) = 5"
    and "x (purifies (series ?s) ! 0) = 100"
    by (simp_all add: rec purification_def)
  with len small show ?thesis
    by simp
qed

subsection \<open>Purification with no earlier stagger event\<close>

lemma purify_refs_ok_removestagger:
  assumes "purify_refs_ok s"
  shows "purify_refs_ok (object_of (on_removestagger pid s ev))"
proof (cases pid ev s rule: on_removestagger_cases)
  case throw
  with assms show ?thesis by simp
next
  case purify
  from purify(2) have "last (staggerEvents s) \<in> set (staggerEvents s)" by simp
  with assms purify(3) show ?thesis
    by (auto simp: purify_refs_ok_def)
next
  case plain
  with assms show ?thesis
    by (auto simp: purify_refs_ok_def)
qed

lemma purify_refs_ok_ingest:
  "purify_refs_ok s \<Longrightarrow> purify_refs_ok (object_of (ingest pid s e))"
proof (cases e)
  case (StaggerRemove ev)
  assume "purify_refs_ok s"
  with StaggerRemove show ?thesis by (simp add: purify_refs_ok_removestagger)
qed (auto simp: purify_refs_ok_def on_addstagger_def on_toPlayer_damage_def
       on_toPlayer_heal_def on_toPlayer_death_def Let_def)

lemma purify_refs_ok_ingest_all:
  "purify_refs_ok s \<Longrightarrow> purify_refs_ok (object_of (ingest_all pid s evs))"
proof (induction evs arbitrary: s)
  case Nil
  then show ?case by simp
next
  case (Cons e es)
  show ?case
  proof (cases "ingest pid s e")
    case (Inl p)
    with purify_refs_ok_ingest [OF Cons.prems, of pid e] show ?thesis by simp
  next
    case (Inr s')
    with purify_refs_ok_ingest [OF Cons.prems, of pid e] have "purify_refs_ok s'" by simp
    from Cons.IH [OF this] Inr show ?thesis by simp
  qed
qed

lemma purify_refs_ok_initial: "purify_refs_ok initial"
  by (simp add: purify_refs_ok_def initial_def)

text \<open>
  Claim C3. When a removal triggered by Purifying Brew arrives while \<open>staggerEvents\<close>
  is empty, \<open>on_removestagger\<close> fails: it throws a \<open>TypeError\<close> and leaves the object
  as it was, so no purify record is appended. Whenever the handler returns normally,
  each purify record it has appended carries the timestamp of an element that
  \<open>staggerEvents\<close> held before the call; and after any feed from a new object, every
  purify record carries the timestamp of an element of \<open>staggerEvents\<close>.
\<close>

theorem purify_needs_previous_stagger:
  "(purifying pid ev \<and> staggerEvents s = [] \<longrightarrow>
      on_removestagger pid s ev = Inl (TypeError, s))
   \<and> (\<forall>s'. on_removestagger pid s ev = Inr s' \<longrightarrow>
        (\<exists>new. purifyEvents s' = purifyEvents s @ new
           \<and> (\<forall>p \<in> set new. \<exists>r \<in> set (staggerEvents s).
                 stagger_timestamp r = previousTimestamp p)))
   \<and> purify_refs_ok (object_of (ingest_all pid initial evs))"
proof (intro conjI allI impI)
  assume "purifying pid ev \<and> staggerEvents s = []"
  then show "on_removestagger pid s ev = Inl (TypeError, s)"
    by (simp add: on_removestagger_throw)
next
  fix s' assume r: "on_removestagger pid s ev = Inr s'"
  show "\<exists>new. purifyEvents s' = purifyEvents s @ new
           \<and> (\<forall>p \<in> set new. \<exists>r \<in> set (staggerEvents s).
                 stagger_timestamp r = previousTimestamp p)"
  proof (cases pid ev s rule: on_removestagger_cases)
    case throw
    with r show ?thesis by simp
  next
    case purify
    from purify(2) have "last (staggerEvents s) \<in> set (staggerEvents s)" by simp
    with purify(3) r show ?thesis by auto
  next
    case plain
    with r show ?thesis by auto
  qed
next
  show "purify_refs_ok (object_of (ingest_all pid initial evs))"
    by (rule purify_refs_ok_ingest_all [OF purify_refs_ok_initial])
qed

theorem purify_needs_previous_stagger_witness:
  "purifying 119582 purification \<and> staggerEvents initial = []
   \<and> on_removestagger 119582 initial purification = Inl (TypeError, initial)
   \<and> purifyEvents (object_of (on_removestagger 119582 initial purification)) = []
   \<and> (\<exists>s'. on_removestagger 119582 peak purification = Inr s'
        \<and> (\<exists>new. purifyEvents s' = purifyEvents peak @ new \<and> new \<noteq> []
             \<and> (\<forall>p \<in> set new. \<exists>r \<in> set (staggerEvents peak).
                   stagger_timestamp r = previousTimestamp p)))
   \<and> purifyEvents (object_of (ingest_all 119582 initial scenario)) \<noteq> []
   \<and> purify_refs_ok (object_of (ingest_all 119582 initial scenario))"
proof -
  have h: "purifying 119582 purification \<and> staggerEvents initial = []"
    by (simp add: purifying_purification initial_def)
  with purify_needs_previous_stagger [of 119582 purification initial scenario]
  have throw: "on_removestagger 119582 initial purification = Inl (TypeError, initial)"
    and inv: "purify_refs_ok (object_of (ingest_all 119582 initial scenario))"
    by blast+
  from throw have none: "purifyEvents (object_of (on_removestagger 119582 initial purification)) = []"
    by (simp add: initial_def)
  have ne: "staggerEvents peak \<noteq> []"
    by (simp add: peak_eq)
  let ?s' = "peak\<lparr>purifyEvents := purifyEvents peak @
             [\<lparr>removal = purification,
               previousTimestamp = stagger_timestamp (last (staggerEvents peak))\<rparr>],
           staggerEvents := staggerEvents peak @
             [\<lparr>source = RemoveStagger purification, hitPoints = lastHp peak,
               maxHitPoints = lastMaxHp peak\<rparr>]\<rparr>"
  have ret: "on_removestagger 119582 peak purification = Inr ?s'"
    by (rule on_removestagger_purify [OF purifying_purification ne])
  with purify_needs_previous_stagger [of 119582 purification peak scenario]
  obtain new where new: "purifyEvents ?s' = purifyEvents peak @ new"
    "\<forall>p \<in> set new. \<exists>r \<in> set (staggerEvents peak). stagger_timestamp r = previousTimestamp p"
    by blast
  from new(1) have "new \<noteq> []"
    by auto
  with ret new have step: "\<exists>s'. on_removestagger 119582 peak purification = Inr s'
        \<and> (\<exists>new. purifyEvents s' = purifyEvents peak @ new \<and> new \<noteq> []
             \<and> (\<forall>p \<in> set new. \<exists>r \<in> set (staggerEvents peak).
                   stagger_timestamp r = previousTimestamp p))"
    by blast
  have "purifyEvents (object_of (ingest_all 119582 initial scenario)) \<noteq> []"
    by (simp add: scenario_eq)
  with h throw none step inv show ?thesis
    by blast
qed

subsection \<open>The stagger records are appended with the health known then\<close>

lemma ingest_staggerEvents:
  "ingest pid s e = Inr s' \<Longrightarrow>
   staggerEvents s' = staggerEvents s @
     map (\<lambda>src. \<lparr>source = src, hitPoints = lastHp s, maxHitPoints = lastMaxHp s\<rparr>)
       (stagger_sources e)"
proof (cases e)
  case (StaggerRemove ev)
  assume "ingest pid s e = Inr s'"
  with StaggerRemove show ?thesis
    by (cases pid ev s rule: on_removestagger_cases) auto
qed (auto simp: on_addstagger_def on_toPlayer_damage_def
       on_toPlayer_heal_def on_toPlayer_death_def Let_def)

lemma ingest_all_staggerEvents:
  "ingest_all pid s evs = Inr t \<Longrightarrow>
   \<exists>new. staggerEvents t = staggerEvents s @ new
        \<and> map source new = concat (map stagger_sources evs)"
proof (induction evs arbitrary: s)
  case Nil
  then show ?case by simp
next
  case (Cons e es)
  let ?snap = "\<lambda>src. \<lparr>source = src, hitPoints = lastHp s, maxHitPoints = lastMaxHp s\<rparr>"
  from Cons.prems obtain s' where s': "ingest pid s e = Inr s'"
    and t: "ingest_all pid s' es = Inr t"
    by (auto split: sum.splits)
  from Cons.IH [OF t] obtain new where
    new: "staggerEvents t = staggerEvents s' @ new"
         "map source new = concat (map stagger_sources es)"
    by blast
  from ingest_staggerEvents [OF s'] new
  have "staggerEvents t = staggerEvents s @ (map ?snap (stagger_sources e) @ new)"
    by simp
  moreover have "map source (map ?snap (stagger_sources e) @ new)
      = concat (map stagger_sources (e # es))"
    using new(2) by (simp add: comp_def)
  ultimately show ?case by blast
qed

lemma ingest_all_prefix:
  "\<exists>new. staggerEvents (object_of (ingest_all pid s evs)) = staggerEvents s @ new"
proof (induction evs arbitrary: s)
  case Nil
  then show ?case by simp
next
  case (Cons e es)
  show ?case
  proof (cases "ingest pid s e")
    case (Inl p)
    then obtain err s' where "ingest pid s e = Inl (err, s')" by (cases p) simp
    with ingest_Inl [OF this] show ?thesis by simp
  next
    case (Inr s')
    from Cons.IH [of s'] obtain new where
      "staggerEvents (object_of (ingest_all pid s' es)) = staggerEvents s' @ new" by blast
    with ingest_staggerEvents [OF Inr] Inr show ?thesis by simp
  qed
qed

text \<open>
  Claim C4. \<open>staggerEvents\<close> is only appended to, in stream order. A handler that
  returns leaves the old elements as they were and appends, for a gain or a removal,
  one record whose \<open>hitPoints\<close> and \<open>maxHitPoints\<close> are \<open>lastHp\<close> and \<open>lastMaxHp\<close> of
  the object at that call, and appends nothing for any other event; a handler that
  throws leaves the object as it was. Hence after any feed the old \<open>staggerEvents\<close>
  is a prefix of the new one, and after a feed that ends normally the appended
  records are the stagger events of the stream, in the order of the stream.
\<close>

theorem staggerEvents_append_only:
  "(\<forall>s'. ingest pid s e = Inr s' \<longrightarrow>
      staggerEvents s' = staggerEvents s @
        map (\<lambda>src. \<lparr>source = src, hitPoints = lastHp s, maxHitPoints = lastMaxHp s\<rparr>)
          (stagger_sources e))
   \<and> (\<forall>err s'. ingest pid s e = Inl (err, s') \<longrightarrow> s' = s)
   \<and> (\<exists>new. staggerEvents (object_of (ingest_all pid s evs)) = staggerEvents s @ new)
   \<and> (\<forall>t. ingest_all pid s evs = Inr t \<longrightarrow>
        map source (drop (length (staggerEvents s)) (staggerEvents t))
          = concat (map stagger_sources evs))"
proof (intro conjI allI impI)
  fix s' assume "ingest pid s e = Inr s'"
  then show "staggerEvents s' = staggerEvents s @
        map (\<lambda>src. \<lparr>source = src, hitPoints = lastHp s, maxHitPoints = lastMaxHp s\<rparr>)
          (stagger_sources e)"
    by (rule ingest_staggerEvents)
next
  fix err s' assume "ingest pid s e = Inl (err, s')"
  then show "s' = s" by (rule ingest_Inl)
next
  show "\<exists>new. staggerEvents (object_of (ingest_all pid s evs)) = staggerEvents s @ new"
    by (rule ingest_all_prefix)
next
  fix t assume "ingest_all pid s evs = Inr t"
  from ingest_all_staggerEvents [OF this]
  show "map source (drop (length (staggerEvents s)) (staggerEvents t))
          = concat (map stagger_sources evs)"
    by auto
qed

theorem staggerEvents_append_only_witness:
  "(\<exists>s'. ingest 119582 peak (StaggerRemove purification) = Inr s'
      \<and> staggerEvents s' = staggerEvents peak @
           [\<lparr>source = RemoveStagger purification, hitPoints = 80, maxHitPoints = 100\<rparr>])
   \<and> ingest 119582 initial (StaggerRemove purification) = Inl (TypeError, initial)
   \<and> (\<exists>t. ingest_all 119582 initial scenario = Inr t
        \<and> map source (staggerEvents t) =
             [AddStagger \<lparr>timestamp = 100, addstagger_event.newPooledDamage = None\<rparr>,
              RemoveStagger purification])"
proof -
  have ne: "staggerEvents peak \<noteq> []"
    by (simp add: peak_eq)
  have "\<exists>s'. ingest 119582 peak (StaggerRemove purification) = Inr s'"
    by (simp add: on_removestagger_purify [OF purifying_purification ne])
  then obtain s' where s': "ingest 119582 peak (StaggerRemove purification) = Inr s'"
    by blast
  with staggerEvents_append_only [of 119582 peak "StaggerRemove purification" scenario]
  have "staggerEvents s' = staggerEvents peak @
      map (\<lambda>src. \<lparr>source = src, hitPoints = lastHp peak, maxHitPoints = lastMaxHp peak\<rparr>)
        (stagger_sources (StaggerRemove purification))"
    by blast
  then have "staggerEvents s' = staggerEvents peak @
      [\<lparr>source = RemoveStagger purification, hitPoints = 80, maxHitPoints = 100\<rparr>]"
    by (simp add: peak_eq)
  with s' have step: "\<exists>s'. ingest 119582 peak (StaggerRemove purification) = Inr s'
      \<and> staggerEvents s' = staggerEvents peak @
           [\<lparr>source = RemoveStagger purification, hitPoints = 80, maxHitPoints = 100\<rparr>]"
    by blast
  have "staggerEvents initial = []"
    by (simp add: initial_def)
  then have throw: "ingest 119582 initial (StaggerRemove purification) = Inl (TypeError, initial)"
    by (simp add: on_removestagger_throw [OF purifying_purification])
  obtain t where t: "ingest_all 119582 initial scenario = Inr t"
    using scenario_eq by blast
  with staggerEvents_append_only [of 119582 initial "StaggerRemove purification" scenario]
  have "map source (drop (length (staggerEvents initial)) (staggerEvents t))
      = concat (map stagger_sources scenario)"
    by blast
  then have "map source (staggerEvents t) =
      [AddStagger \<lparr>timestamp = 100, addstagger_event.newPooledDamage = None\<rparr>,
       RemoveStagger purification]"
    by (simp add: initial_def scenario_def)
  with t have "\<exists>t. ingest_all 119582 initial scenario = Inr t
        \<and> map source (staggerEvents t) =
             [AddStagger \<lparr>timestamp = 100, addstagger_event.newPooledDamage = None\<rparr>,
              RemoveStagger purification]"
    by (intro exI [of _ t]) simp
  with step throw show ?thesis
    by simp
qed

subsection \<open>The last known health\<close>

text \<open>
  Claim C5. \<open>on_toPlayer_damage\<close> and \<open>on_toPlayer_heal\<close> set \<open>lastHp\<close> to the
  \<open>hitPoints\<close> of the event when that field is present and not zero, and leave
  \<open>lastHp\<close> as it was when the field is missing or zero; they treat \<open>lastMaxHp\<close>
  and \<open>maxHitPoints\<close> in the same way.
\<close>

theorem lastHp_updated_only_by_nonzero:
  "(\<forall>v. hp_event.hitPoints ev = Some v \<and> v \<noteq> 0 \<longrightarrow>
        lastHp (on_toPlayer_damage s ev) = v \<and> lastHp (on_toPlayer_heal s ev) = v)
   \<and> (hp_event.hitPoints ev = None \<or> hp_event.hitPoints ev = Some 0 \<longrightarrow>
        lastHp (on_toPlayer_damage s ev) = lastHp s \<and> lastHp (on_toPlayer_heal s ev) = lastHp s)
   \<and> (\<forall>v. hp_event.maxHitPoints ev = Some v \<and> v \<noteq> 0 \<longrightarrow>
        lastMaxHp (on_toPlayer_damage s ev) = v \<and> lastMaxHp (on_toPlayer_heal s ev) = v)
   \<and> (hp_event.maxHitPoints ev = None \<or> hp_event.maxHitPoints ev = Some 0 \<longrightarrow>
        lastMaxHp (on_toPlayer_damage s ev) = lastMaxHp s
        \<and> lastMaxHp (on_toPlayer_heal s ev) = lastMaxHp s)"
  by (auto simp: on_toPlayer_damage_def on_toPlayer_heal_def Let_def)

theorem lastHp_updated_only_by_nonzero_witness:
  "hp_event.hitPoints full_hit = Some 80 \<and> hp_event.maxHitPoints full_hit = Some 100
   \<and> lastHp (on_toPlayer_damage initial full_hit) = 80
   \<and> lastMaxHp (on_toPlayer_heal initial full_hit) = 100
   \<and> hp_event.hitPoints killing_hit = Some 0 \<and> hp_event.maxHitPoints killing_hit = None
   \<and> lastHp peak = 80 \<and> lastMaxHp peak = 100
   \<and> lastHp (on_toPlayer_damage peak killing_hit) = 80
   \<and> lastMaxHp (on_toPlayer_damage peak killing_hit) = 100
   \<and> hp_event.hitPoints blind_heal = None
   \<and> lastHp (on_toPlayer_heal peak blind_heal) = 80"
proof -
  have full: "hp_event.hitPoints full_hit = Some 80 \<and> (80::int) \<noteq> 0"
    "hp_event.maxHitPoints full_hit = Some 100 \<and> (100::int) \<noteq> 0"
    by (simp_all add: full_hit_def)
  have kill: "hp_event.hitPoints killing_hit = Some 0" "hp_event.maxHitPoints killing_hit = None"
    by (simp_all add: killing_hit_def)
  have blind: "hp_event.hitPoints blind_heal = None"
    by (simp add: blind_heal_def)
  have last: "lastHp peak = 80" "lastMaxHp peak = 100"
    by (simp_all add: peak_eq)
  from lastHp_updated_only_by_nonzero [of full_hit initial] full
  have "lastHp (on_toPlayer_damage initial full_hit) = 80"
    "lastMaxHp (on_toPlayer_heal initial full_hit) = 100"
    by blast+
  moreover from lastHp_updated_only_by_nonzero [of killing_hit peak] kill last
  have "lastHp (on_toPlayer_damage peak killing_hit) = 80"
    "lastMaxHp (on_toPlayer_damage peak killing_hit) = 100"
    by simp_all
  moreover from lastHp_updated_only_by_nonzero [of blind_heal peak] blind last
  have "lastHp (on_toPlayer_heal peak blind_heal) = 80"
    by simp
  ultimately show ?thesis
    using full kill blind last by blast
qed

subsection \<open>Every removal that returns appends one stagger record\<close>

text \<open>
  Claim C6, as stated, fails: a removal triggered by Purifying Brew that arrives while
  \<open>staggerEvents\<close> is empty raises a \<open>TypeError\<close> and appends nothing, here on a new
  object.
\<close>

theorem removestagger_first_purify_throws:
  "on_removestagger 119582 initial
     \<lparr>timestamp = 200, newPooledDamage = 5, amount = 15,
      trigger = \<lparr>ability = Some \<lparr>guid = 119582\<rparr>\<rparr>\<rparr>
   = Inl (TypeError, initial)
   \<and> staggerEvents initial = [] \<and> purifyEvents initial = []"
  by (simp add: on_removestagger_def purifying_def initial_def)

text \<open>
  Claim C6, amended. When \<open>staggerEvents\<close> is not empty, or the trigger does not carry
  the ability of Purifying Brew, \<open>on_removestagger\<close> returns normally and appends
  exactly one record for the removal to \<open>staggerEvents\<close>, with the health known at
  the call; so the removal contributes one point to the pool series of \<open>plot\<close>, at
  its own timestamp and with its \<open>newPooledDamage\<close> as \<open>y\<close>. The handler appends
  one purify record if the trigger has an ability whose identifier is that of
  Purifying Brew, and leaves \<open>purifyEvents\<close> as it was if the trigger has another
  ability or none.
\<close>

theorem removestagger_appends_record:
  assumes "staggerEvents s \<noteq> [] \<or> \<not> purifying pid ev"
  shows "\<exists>s'. on_removestagger pid s ev = Inr s'
     \<and> staggerEvents s' = staggerEvents s @
          [\<lparr>source = RemoveStagger ev, hitPoints = lastHp s, maxHitPoints = lastMaxHp s\<rparr>]
     \<and> stagger (series s') = stagger (series s) @
          [\<lparr>x = timestamp ev, y = Some (removestagger_event.newPooledDamage ev),
            stagger_point.hp = lastHp s, maxHp = lastMaxHp s\<rparr>]
     \<and> (purifying pid ev \<longrightarrow> purifyEvents s' = purifyEvents s @
          [\<lparr>removal = ev, previousTimestamp = stagger_timestamp (last (staggerEvents s))\<rparr>])
     \<and> (\<not> purifying pid ev \<longrightarrow> purifyEvents s' = purifyEvents s)
     \<and> (purifying pid ev \<longleftrightarrow> (\<exists>a. ability (trigger ev) = Some a \<and> guid a = pid))"
proof (cases pid ev s rule: on_removestagger_cases)
  case throw
  with assms show ?thesis by simp
next
  case purify
  then show ?thesis by (simp add: purifying_iff stagger_series)
next
  case plain
  then show ?thesis by (simp add: purifying_iff stagger_series)
qed

theorem removestagger_appends_record_witness:
  "(staggerEvents peak \<noteq> [] \<and> purifying 119582 purification
    \<and> (\<exists>s'. on_removestagger 119582 peak purification = Inr s'
         \<and> length (staggerEvents s') = Suc (length (staggerEvents peak))
         \<and> stagger (series s') =
             [\<lparr>x = 100, y = None, stagger_point.hp = 0, maxHp = 0\<rparr>,
              \<lparr>x = 200, y = Some 5, stagger_point.hp = 80, maxHp = 100\<rparr>]
         \<and> length (purifyEvents s') = Suc (length (purifyEvents peak))))
   \<and> (\<not> purifying 119582 tick \<and> ability (trigger tick) = None
    \<and> (\<exists>s'. on_removestagger 119582 initial tick = Inr s'
         \<and> staggerEvents s' = [\<lparr>source = RemoveStagger tick, hitPoints = 0, maxHitPoints = 0\<rparr>]
         \<and> stagger (series s') = [\<lparr>x = 300, y = Some 4, stagger_point.hp = 0, maxHp = 0\<rparr>]
         \<and> purifyEvents s' = []))"
proof -
  have ne: "staggerEvents peak \<noteq> []"
    by (simp add: peak_eq)
  then have "staggerEvents peak \<noteq> [] \<or> \<not> purifying 119582 purification"
    by simp
  from removestagger_appends_record [OF this] purifying_purification
  obtain s' where s': "on_removestagger 119582 peak purification = Inr s'"
    "staggerEvents s' = staggerEvents peak @
       [\<lparr>source = RemoveStagger purification, hitPoints = lastHp peak,
         maxHitPoints = lastMaxHp peak\<rparr>]"
    "stagger (series s') = stagger (series peak) @
       [\<lparr>x = timestamp purification,
         y = Some (removestagger_event.newPooledDamage purification),
         stagger_point.hp = lastHp peak, maxHp = lastMaxHp peak\<rparr>]"
    "purifyEvents s' = purifyEvents peak @
       [\<lparr>removal = purification,
         previousTimestamp = stagger_timestamp (last (staggerEvents peak))\<rparr>]"
    by blast
  from s'(3) have "stagger (series s') =
             [\<lparr>x = 100, y = None, stagger_point.hp = 0, maxHp = 0\<rparr>,
              \<lparr>x = 200, y = Some 5, stagger_point.hp = 80, maxHp = 100\<rparr>]"
    by (simp add: stagger_series peak_eq purification_def)
  with s' have a: "\<exists>s'. on_removestagger 119582 peak purification = Inr s'
         \<and> length (staggerEvents s') = Suc (length (staggerEvents peak))
         \<and> stagger (series s') =
             [\<lparr>x = 100, y = None, stagger_point.hp = 0, maxHp = 0\<rparr>,
              \<lparr>x = 200, y = Some 5, stagger_point.hp = 80, maxHp = 100\<rparr>]
         \<and> length (purifyEvents s') = Suc (length (purifyEvents peak))"
    by simp
  have "staggerEvents initial \<noteq> [] \<or> \<not> purifying 119582 tick"
    by (simp add: not_purifying_tick)
  from removestagger_appends_record [OF this] not_purifying_tick
  obtain s'' where "on_removestagger 119582 initial tick = Inr s''"
    "staggerEvents s'' = staggerEvents initial @
       [\<lparr>source = RemoveStagger tick, hitPoints = lastHp initial,
         maxHitPoints = lastMaxHp initial\<rparr>]"
    "stagger (series s'') = stagger (series initial) @
       [\<lparr>x = timestamp tick, y = Some (removestagger_event.newPooledDamage tick),
         stagger_point.hp = lastHp initial, maxHp = lastMaxHp initial\<rparr>]"
    "purifyEvents s'' = purifyEvents initial"
    by blast
  then have b: "\<exists>s'. on_removestagger 119582 initial tick = Inr s'
         \<and> staggerEvents s' = [\<lparr>source = RemoveStagger tick, hitPoints = 0, maxHitPoints = 0\<rparr>]
         \<and> stagger (series s') = [\<lparr>x = 300, y = Some 4, stagger_point.hp = 0, maxHp = 0\<rparr>]
         \<and> purifyEvents s' = []"
    by (simp add: initial_def stagger_series tick_def)
  have "ability (trigger tick) = None"
    by (simp add: tick_def)
  with ne purifying_purification not_purifying_tick a b show ?thesis
    by blast
qed

subsection \<open>The health series\<close>

text \<open>
  Claim C7. The health series of \<open>plot\<close> consists of the elements of \<open>hpEvents\<close>
  whose \<open>hitPoints\<close> is defined, in order, each as the point with the event's
  \<open>timestamp\<close> as \<open>x\<close> and its \<open>hitPoints\<close> as \<open>y\<close>; the series of maximal health
  is built in the same way from \<open>maxHitPoints\<close>. So no point of either series has an
  undefined \<open>y\<close>, and the number of points plus the number of events left out for
  the missing field is the length of \<open>hpEvents\<close>.
\<close>

theorem health_series_defined_only:
  "graph_props.hp (series s) =
     map (\<lambda>e. \<lparr>x = timestamp e, y = hp_event.hitPoints e\<rparr>)
       (filter (\<lambda>e. hp_event.hitPoints e \<noteq> None) (hpEvents s))
   \<and> graph_props.maxHp (series s) =
     map (\<lambda>e. \<lparr>x = timestamp e, y = hp_event.maxHitPoints e\<rparr>)
       (filter (\<lambda>e. hp_event.maxHitPoints e \<noteq> None) (hpEvents s))
   \<and> (\<forall>p \<in> set (graph_props.hp (series s)). y p \<noteq> None)
   \<and> (\<forall>p \<in> set (graph_props.maxHp (series s)). y p \<noteq> None)
   \<and> length (graph_props.hp (series s))
       + length (filter (\<lambda>e. hp_event.hitPoints e = None) (hpEvents s)) = length (hpEvents s)
   \<and> length (graph_props.maxHp (series s))
       + length (filter (\<lambda>e. hp_event.maxHitPoints e = None) (hpEvents s))
       = length (hpEvents s)"
proof -
  have "\<forall>p \<in> set (graph_props.hp (series s)). y p \<noteq> None"
    by (auto simp: hp_series)
  moreover have "\<forall>p \<in> set (graph_props.maxHp (series s)). y p \<noteq> None"
    by (auto simp: maxHp_series)
  moreover have "length (graph_props.hp (series s))
       + length (filter (\<lambda>e. hp_event.hitPoints e = None) (hpEvents s)) = length (hpEvents s)"
    using sum_length_filter_compl [of "\<lambda>e. hp_event.hitPoints e \<noteq> None" "hpEvents s"]
    by (simp add: hp_series)
  moreover have "length (graph_props.maxHp (series s))
       + length (filter (\<lambda>e. hp_event.maxHitPoints e = None) (hpEvents s))
       = length (hpEvents s)"
    using sum_length_filter_compl [of "\<lambda>e. hp_event.maxHitPoints e \<noteq> None" "hpEvents s"]
    by (simp add: maxHp_series)
  ultimately show ?thesis
    using hp_series [of s] maxHp_series [of s] by simp
qed

theorem health_series_defined_only_witness:
  "graph_props.hp (series (object_of (ingest_all 119582 initial health_stream)))
     = [\<lparr>x = 10, y = Some 80\<rparr>, \<lparr>x = 30, y = Some 0\<rparr>]
   \<and> graph_props.maxHp (series (object_of (ingest_all 119582 initial health_stream)))
     = [\<lparr>x = 10, y = Some 100\<rparr>, \<lparr>x = 20, y = Some 120\<rparr>]
   \<and> length (hpEvents (object_of (ingest_all 119582 initial health_stream))) = 3
   \<and> length (filter (\<lambda>e. hp_event.hitPoints e = None)
        (hpEvents (object_of (ingest_all 119582 initial health_stream)))) = 1"
proof -
  let ?s = "object_of (ingest_all 119582 initial health_stream)"
  have ev: "hpEvents ?s = [full_hit, blind_heal, killing_hit]"
    by (simp add: health_stream_eq)
  from health_series_defined_only [of ?s]
  have "graph_props.hp (series ?s) =
     map (\<lambda>e. \<lparr>x = timestamp e, y = hp_event.hitPoints e\<rparr>)
       (filter (\<lambda>e. hp_event.hitPoints e \<noteq> None) (hpEvents ?s))"
    and "graph_props.maxHp (series ?s) =
     map (\<lambda>e. \<lparr>x = timestamp e, y = hp_event.maxHitPoints e\<rparr>)
       (filter (\<lambda>e. hp_event.maxHitPoints e \<noteq> None) (hpEvents ?s))"
    by simp_all
  then show ?thesis
    by (simp add: ev full_hit_def blind_heal_def killing_hit_def)
qed

subsection \<open>Streams without stagger events\<close>

lemma ingest_all_no_stagger:
  "\<forall>e \<in> set evs. \<not> is_stagger e \<Longrightarrow>
   \<exists>t. ingest_all pid s evs = Inr t \<and> staggerEvents t = staggerEvents s
      \<and> purifyEvents t = purifyEvents s"
proof (induction evs arbitrary: s)
  case Nil
  then show ?case by simp
next
  case (Cons e es)
  from Cons.prems have e: "\<not> is_stagger e" and es: "\<forall>e \<in> set es. \<not> is_stagger e"
    by simp_all
  from e obtain s' where s': "ingest pid s e = Inr s'"
    "staggerEvents s' = staggerEvents s" "purifyEvents s' = purifyEvents s"
    by (cases e) (simp_all add: on_toPlayer_damage_def on_toPlayer_heal_def
        on_toPlayer_death_def Let_def)
  from Cons.IH [OF es, of s'] s' show ?case by simp
qed

text \<open>
  Claim C9. A feed of a new object with a stream that has no gain and no removal of
  stagger ends normally, with no error, and the pool series and the series of purify
  markers of the resulting object are both empty.
\<close>

theorem no_stagger_empty_series:
  assumes "\<forall>e \<in> set evs. \<not> is_stagger e"
  shows "\<exists>t. ingest_all pid initial evs = Inr t
     \<and> stagger (series t) = [] \<and> purifies (series t) = []"
proof -
  from ingest_all_no_stagger [OF assms, of pid initial] obtain t where
    "ingest_all pid initial evs = Inr t" "staggerEvents t = []" "purifyEvents t = []"
    by (auto simp: initial_def)
  then show ?thesis by (simp add: stagger_series purifies_series)
qed

theorem no_stagger_empty_series_witness:
  "filter is_stagger quiet_stream = [] \<and> length quiet_stream = 4
   \<and> (\<exists>t. ingest_all 119582 initial quiet_stream = Inr t
        \<and> stagger (series t) = [] \<and> purifies (series t) = [])"
proof -
  have h: "\<forall>e \<in> set quiet_stream. \<not> is_stagger e"
    by (simp add: quiet_stream_def)
  have "filter is_stagger quiet_stream = []" "length quiet_stream = 4"
    by (simp_all add: quiet_stream_def)
  with no_stagger_empty_series [OF h, of 119582] show ?thesis
    by simp
qed

subsection \<open>A hit that leaves no hit points\<close>

text \<open>
  Claim C10. A damage or heal event whose \<open>hitPoints\<close> is 0 adds a point with
  \<open>y = 0\<close> to the health series, and leaves \<open>lastHp\<close> as it was. So the health
  carried by a later stagger record can differ from the latest point of the health
  series: after \<open>health_stream\<close> the latest health point has \<open>y = 0\<close>, and the
  stagger record appended after it, with its point of the pool series, carries 80.
\<close>

theorem zero_hitPoints_plotted_not_tracked:
  "(hp_event.hitPoints ev = Some 0 \<longrightarrow>
      graph_props.hp (series (on_toPlayer_damage s ev))
        = graph_props.hp (series s) @ [\<lparr>x = timestamp ev, y = Some 0\<rparr>]
      \<and> lastHp (on_toPlayer_damage s ev) = lastHp s
      \<and> graph_props.hp (series (on_toPlayer_heal s ev))
        = graph_props.hp (series s) @ [\<lparr>x = timestamp ev, y = Some 0\<rparr>]
      \<and> lastHp (on_toPlayer_heal s ev) = lastHp s)
   \<and> (\<exists>t. ingest_all pid initial health_stream = Inr t
        \<and> last (graph_props.hp (series t)) = \<lparr>x = 30, y = Some 0\<rparr>
        \<and> stagger_timestamp (last (staggerEvents t)) = 40
        \<and> stagger_record.hitPoints (last (staggerEvents t)) = 80
        \<and> stagger_point.hp (last (stagger (series t))) = 80)"
proof (intro conjI impI)
  assume "hp_event.hitPoints ev = Some 0"
  then show "graph_props.hp (series (on_toPlayer_damage s ev))
        = graph_props.hp (series s) @ [\<lparr>x = timestamp ev, y = Some 0\<rparr>]"
    "lastHp (on_toPlayer_damage s ev) = lastHp s"
    "graph_props.hp (series (on_toPlayer_heal s ev))
        = graph_props.hp (series s) @ [\<lparr>x = timestamp ev, y = Some 0\<rparr>]"
    "lastHp (on_toPlayer_heal s ev) = lastHp s"
    by (simp_all add: hp_series on_toPlayer_damage_def on_toPlayer_heal_def Let_def)
next
  show "\<exists>t. ingest_all pid initial health_stream = Inr t
        \<and> last (graph_props.hp (series t)) = \<lparr>x = 30, y = Some 0\<rparr>
        \<and> stagger_timestamp (last (staggerEvents t)) = 40
        \<and> stagger_record.hitPoints (last (staggerEvents t)) = 80
        \<and> stagger_point.hp (last (stagger (series t))) = 80"
    by (simp add: health_stream_def initial_def on_toPlayer_damage_def on_toPlayer_heal_def
        on_addstagger_def Let_def hp_series stagger_series
        full_hit_def blind_heal_def killing_hit_def)
qed

theorem zero_hitPoints_plotted_not_tracked_witness:
  "hp_event.hitPoints killing_hit = Some 0
   \<and> graph_props.hp (series (on_toPlayer_damage (on_toPlayer_damage initial full_hit) killing_hit))
       = [\<lparr>x = 10, y = Some 80\<rparr>, \<lparr>x = 30, y = Some 0\<rparr>]
   \<and> lastHp (on_toPlayer_damage (on_toPlayer_damage initial full_hit) killing_hit) = 80"
proof -
  let ?s = "on_toPlayer_damage initial full_hit"
  have h: "hp_event.hitPoints killing_hit = Some 0"
    by (simp add: killing_hit_def)
  have s: "graph_props.hp (series ?s) = [\<lparr>x = 10, y = Some 80\<rparr>]" "lastHp ?s = 80"
    by (simp_all add: hp_series on_toPlayer_damage_def Let_def initial_def full_hit_def)
  from zero_hitPoints_plotted_not_tracked [of killing_hit ?s 119582] h
  have "graph_props.hp (series (on_toPlayer_damage ?s killing_hit))
        = graph_props.hp (series ?s) @ [\<lparr>x = timestamp killing_hit, y = Some 0\<rparr>]"
    and "lastHp (on_toPlayer_damage ?s killing_hit) = lastHp ?s"
    by simp_all
  with h s show ?thesis
    by (simp add: killing_hit_def)
qed

end
